theory Spec2Isabelle
  imports Complex_Main
begin

section \<open>Errors\<close>

text \<open>
  The Python exceptions the modelled functions can raise. A function that may raise
  returns \<open>error + 'a\<close>, with \<open>Inl\<close> for the exception that leaves the function.
\<close>

datatype error =
    ValueError
  | TypeError
  | IndexError
  | ZeroDivisionError
  | AssertionError
  | OSError

section \<open>cameleon/utils/env.py: str2int\<close>

text \<open>
  Python's \<open>int(s)\<close> on a string, base ten: blanks are skipped on both sides, one sign
  is allowed, then comes a non-empty run of decimal digits in which single underscores
  may separate digits. Everything else is a \<open>ValueError\<close>, here \<open>None\<close>. The model
  reads ASCII text; the further Unicode blanks and digits that Python also accepts are
  outside it. \<open>max_digits\<close> is the interpreter's limit on the number of digits
  (\<open>sys.get_int_max_str_digits()\<close>, 4300 by default since Python 3.11), \<open>0\<close> when there
  is none.
\<close>

definition py_isspace :: "char \<Rightarrow> bool" where
  "py_isspace c = (of_char c \<in> {9::nat, 10, 11, 12, 13, 32})"

definition is_digit :: "char \<Rightarrow> bool" where
  "is_digit c = (if (48::nat) \<le> of_char c then of_char c \<le> (57::nat) else False)"

definition digit_val :: "char \<Rightarrow> nat" where
  "digit_val c = of_char c - 48"

text \<open>
  The digit scan of \<open>int\<close>: \<open>prev\<close> is the character read last, \<open>acc\<close> the value
  so far, \<open>n\<close> the number of digits. It stops at the first character that is neither a
  digit nor an underscore and fails on two underscores in a row.
\<close>

fun scan_digits :: "char \<Rightarrow> nat \<Rightarrow> nat \<Rightarrow> string \<Rightarrow> (nat \<times> nat \<times> char \<times> string) option" where
  "scan_digits prev acc n [] = Some (acc, n, prev, [])"
| "scan_digits prev acc n (c # cs) =
     (if is_digit c then scan_digits c (acc * 10 + digit_val c) (Suc n) cs
      else if c = CHR ''_'' then
        (if prev = CHR ''_'' then None else scan_digits c acc n cs)
      else Some (acc, n, prev, c # cs))"

definition over_limit :: "nat \<Rightarrow> nat \<Rightarrow> bool" where
  "over_limit max_digits n =
     (if max_digits = 0 then False else if n \<le> 640 then False else max_digits < n)"

definition py_int :: "nat \<Rightarrow> string \<Rightarrow> int option" where
  "py_int max_digits s =
     (let s1 = dropWhile py_isspace s;
          neg = (case s1 of [] \<Rightarrow> False | c # _ \<Rightarrow> c = CHR ''-'');
          s2 = (case s1 of [] \<Rightarrow> []
                | c # cs \<Rightarrow> if c = CHR ''+'' then cs else if c = CHR ''-'' then cs else s1)
      in case s2 of
           [] \<Rightarrow> None
         | c # _ \<Rightarrow>
             if c = CHR ''_'' then None
             else (case scan_digits (CHR 0x00) 0 0 s2 of
                     None \<Rightarrow> None
                   | Some (acc, n, prev, rest) \<Rightarrow>
                       if n = 0 then None
                       else if prev = CHR ''_'' then None
                       else if dropWhile py_isspace rest = [] then
                         (if over_limit max_digits n then None
                          else Some (if neg then - int acc else int acc))
                       else None))"

text \<open>
  \<open>str2int\<close>: the empty string is \<open>None\<close>; otherwise \<open>assert int(s)\<close> lets a
  \<open>ValueError\<close> of \<open>int\<close> through, fails on a parsed zero (zero is falsy), and the
  function returns \<open>int(s)\<close>. Assertions are enabled, as they are unless the interpreter
  runs with \<open>-O\<close>.
\<close>

definition str2int :: "nat \<Rightarrow> string \<Rightarrow> error + int option" where
  "str2int max_digits s =
     (if s = [] then Inr None
      else case py_int max_digits s of
             None \<Rightarrow> Inl ValueError
           | Some n \<Rightarrow>
               if n = 0 then Inl AssertionError
               else (case py_int max_digits s of
                       None \<Rightarrow> Inl ValueError
                     | Some m \<Rightarrow> Inr (Some m)))"

section \<open>interestingness_xdrl/analysis: the data model\<close>

text \<open>
  An interaction datapoint, reduced to the fields that \<open>AnalysisBase\<close> reads: the
  episode marker and the names of the action factors.
\<close>

record InteractionDataPoint =
  new_episode :: bool
  action_factors :: "string list"

text \<open>
  The analysis configuration is an object shared by reference between analyses, so it
  lives in a store and an analysis holds its address. \<open>AnalysisBase\<close> touches only the
  field \<open>num_processes\<close>.
\<close>

record AnalysisConfiguration =
  num_processes :: int

type_synonym ref = nat

type_synonym heap = "ref \<Rightarrow> AnalysisConfiguration"

text \<open>
  The analysis object. \<open>data\<close> is \<open>None\<close> while \<open>save\<close> has the interaction data
  set aside.
\<close>

record AnalysisBase =
  data :: "InteractionDataPoint list option"
  config :: ref
  img_fmt :: string

text \<open>\<open>__init__\<close> stores its three arguments; it checks nothing and raises nothing.\<close>

definition AnalysisBase_init :: "InteractionDataPoint list \<Rightarrow> ref \<Rightarrow> string \<Rightarrow> AnalysisBase" where
  "AnalysisBase_init ds analysis_config fmt =
     \<lparr>data = Some ds, config = analysis_config, img_fmt = fmt\<rparr>"

section \<open>save\<close>

text \<open>
  \<open>save\<close> sets the data aside, writes the object, and puts the data back. Opening the
  gzip file and pickling the object are the world's part: \<open>dump w path obj\<close> is the
  world after the write, or the exception that \<open>gzip.open\<close> or \<open>pickle.dump\<close> raised.
  There is no \<open>try\<close> around the write, so an exception leaves \<open>save\<close> before the
  last assignment. The result is the object as \<open>save\<close> leaves it and the outcome.
\<close>

definition save :: "('w \<Rightarrow> string \<Rightarrow> AnalysisBase \<Rightarrow> error + 'w) \<Rightarrow> 'w \<Rightarrow> AnalysisBase \<Rightarrow> string
    \<Rightarrow> AnalysisBase \<times> (error + 'w)" where
  "save dump w self file_path =
     (let data0 = data self;
          self1 = self\<lparr>data := None\<rparr>
      in case dump w file_path self1 of
           Inl e \<Rightarrow> (self1, Inl e)
         | Inr w' \<Rightarrow> (self1\<lparr>data := data0\<rparr>, Inr w'))"

section \<open>The worker pool\<close>

text \<open>
  \<open>multiprocessing.Pool(processes)\<close>: with \<open>None\<close> the pool takes
  \<open>os.cpu_count() or 1\<close> workers, and a count below one is a \<open>ValueError\<close>.
  \<open>cpus\<close> is what the host reports.
\<close>

datatype pool = Pool nat

definition mp_Pool :: "nat option \<Rightarrow> int option \<Rightarrow> error + pool" where
  "mp_Pool cpus processes =
     (let p = (case processes of
                 None \<Rightarrow> (case cpus of None \<Rightarrow> 1 | Some c \<Rightarrow> if c = 0 then 1 else int c)
               | Some n \<Rightarrow> n)
      in if p < 1 then Inl ValueError else Inr (Pool (nat p)))"

text \<open>
  \<open>_get_mp_pool\<close> first assigns \<open>-1\<close> to the configuration's \<open>num_processes\<close>, then
  reads the field back to size the pool. The result is the store after the call and the
  pool (the logging call is left out).
\<close>

definition get_mp_pool :: "nat option \<Rightarrow> heap \<Rightarrow> AnalysisBase \<Rightarrow> heap \<times> (error + pool)" where
  "get_mp_pool cpus h self =
     (let h1 = h(config self := (h (config self))\<lparr>num_processes := - 1\<rparr>);
          n = num_processes (h1 (config self))
      in (h1, mp_Pool cpus (if 1 < n then Some n else None)))"

section \<open>Floating-point values and outliers\<close>

text \<open>
  A Python float as far as comparisons see it: not-a-number, the two infinities, or a
  finite value. Every comparison with \<open>NaN\<close> is false. An undefined threshold is
  \<open>NaN\<close> (the plots test it with \<open>np.isnan\<close>).
\<close>

datatype pyfloat = NaN | NegInf | Fin real | PosInf

fun fge :: "pyfloat \<Rightarrow> pyfloat \<Rightarrow> bool" where
  "fge NaN b = False"
| "fge a NaN = False"
| "fge PosInf b = True"
| "fge a NegInf = True"
| "fge NegInf b = False"
| "fge (Fin x) PosInf = False"
| "fge (Fin x) (Fin y) = (y \<le> x)"

definition fle :: "pyfloat \<Rightarrow> pyfloat \<Rightarrow> bool" where
  "fle a b = fge b a"

definition np_isnan :: "pyfloat \<Rightarrow> bool" where
  "np_isnan a = (case a of NaN \<Rightarrow> True | _ \<Rightarrow> False)"

text \<open>
  The outlier lists of one panel:
  \<^verbatim>\<open>[[t, ep_data[t]] for t in range(len(ep_data)) if ep_data[t] >= high_limit]\<close>
  and the same with \<^verbatim>\<open><= low_limit\<close>.
\<close>

definition highs :: "pyfloat list \<Rightarrow> pyfloat \<Rightarrow> (nat \<times> pyfloat) list" where
  "highs ep_data high_limit =
     map (\<lambda>t. (t, ep_data ! t)) (filter (\<lambda>t. fge (ep_data ! t) high_limit) [0..<length ep_data])"

definition lows :: "pyfloat list \<Rightarrow> pyfloat \<Rightarrow> (nat \<times> pyfloat) list" where
  "lows ep_data low_limit =
     map (\<lambda>t. (t, ep_data ! t)) (filter (\<lambda>t. fle (ep_data ! t) low_limit) [0..<length ep_data])"

text \<open>
  \<open>np.array\<close> of a non-empty list of pairs has two dimensions, of the empty list one.
  The scatter call is made only for two dimensions, with the two columns of the array.
\<close>

definition np_array_ndim :: "(nat \<times> pyfloat) list \<Rightarrow> nat" where
  "np_array_ndim pts = (if pts = [] then 1 else 2)"

definition scatter_points :: "(nat \<times> pyfloat) list \<Rightarrow> (nat list \<times> pyfloat list) option" where
  "scatter_points pts = (if np_array_ndim pts = 2 then Some (map fst pts, map snd pts) else None)"

section \<open>Splitting the series into episodes\<close>

text \<open>
  \<open>np.where(flags)[0].tolist()\<close>: the positions of the true flags, ascending.
  \<open>list.remove(x)\<close>: drops the first \<open>x\<close>, and is a \<open>ValueError\<close> when there is
  none. A slice \<open>xs[st:en]\<close> with indices that are not negative never fails.
  \<open>np.split(xs, idx)\<close> with a list of indices cuts at \<open>0, idx..., len(xs)\<close>.
\<close>

definition np_where :: "bool list \<Rightarrow> nat list" where
  "np_where flags = filter (\<lambda>i. flags ! i) [0..<length flags]"

definition list_remove :: "nat \<Rightarrow> nat list \<Rightarrow> error + nat list" where
  "list_remove x xs = (if x \<in> set xs then Inr (remove1 x xs) else Inl ValueError)"

definition py_slice :: "'a list \<Rightarrow> nat \<Rightarrow> nat \<Rightarrow> 'a list" where
  "py_slice xs st en = take (en - st) (drop st xs)"

definition np_split :: "'a list \<Rightarrow> nat list \<Rightarrow> 'a list list" where
  "np_split xs idx =
     (let div_points = 0 # idx @ [length xs]
      in map (\<lambda>i. py_slice xs (div_points ! i) (div_points ! Suc i)) [0..<Suc (length idx)])"

text \<open>
  \<open>np.arange(0, n, step)\<close> on integers: the multiples of a positive \<open>step\<close> below
  \<open>n\<close>, nothing for a negative \<open>step\<close>, and a \<open>ZeroDivisionError\<close> for \<open>step = 0\<close>.
\<close>

definition np_arange :: "nat \<Rightarrow> int \<Rightarrow> error + nat list" where
  "np_arange n step =
     (if step = 0 then Inl ZeroDivisionError
      else if step < 0 then Inr []
      else Inr (map (\<lambda>k. k * nat step) [0..<(n + nat step - 1) div nat step]))"

section \<open>Multi-panel rendering\<close>

text \<open>
  What one panel shows: the episode's series, the two threshold lines (drawn when the
  limit is not \<open>NaN\<close>) and the two scatter calls. The line for the overall mean and
  the layout (panel widths, figure size, title, legend) are left out.
\<close>

record panel =
  series :: "pyfloat list"
  high_line :: "pyfloat option"
  low_line :: "pyfloat option"
  high_points :: "(nat list \<times> pyfloat list) option"
  low_points :: "(nat list \<times> pyfloat list) option"

definition render_panel :: "pyfloat \<Rightarrow> pyfloat \<Rightarrow> pyfloat list \<Rightarrow> panel" where
  "render_panel high_limit low_limit ep_data =
     \<lparr>series = ep_data,
      high_line = (if np_isnan high_limit then None else Some high_limit),
      low_line = (if np_isnan low_limit then None else Some low_limit),
      high_points = scatter_points (highs ep_data high_limit),
      low_points = scatter_points (lows ep_data low_limit)\<rparr>"

text \<open>
  \<open>plt.subplots(1, n)\<close> is called with the default \<open>squeeze=True\<close>: for \<open>n = 1\<close> it
  returns the one \<open>Axes\<close> object itself, for \<open>n > 1\<close> an array of \<open>n\<close> of them, and
  \<open>n = 0\<close> is a \<open>ValueError\<close>. The loop \<open>for ep, ax in enumerate(axs)\<close> needs an
  iterable; an \<open>Axes\<close> object is none, so \<open>enumerate\<close> raises \<open>TypeError\<close>.
\<close>

datatype axes = SingleAxes | AxesArray nat

definition plt_subplots :: "nat \<Rightarrow> error + axes" where
  "plt_subplots n =
     (if n = 0 then Inl ValueError else if n = 1 then Inr SingleAxes else Inr (AxesArray n))"

definition enumerate_axes :: "axes \<Rightarrow> error + nat list" where
  "enumerate_axes axs = (case axs of SingleAxes \<Rightarrow> Inl TypeError | AxesArray n \<Rightarrow> Inr [0..<n])"

text \<open>One figure: the panels of one batch of episodes, or the exception raised on the way.\<close>

definition render_figure :: "pyfloat \<Rightarrow> pyfloat \<Rightarrow> pyfloat list list \<Rightarrow> error + panel list" where
  "render_figure high_limit low_limit plot_eps_data =
     (case plt_subplots (length plot_eps_data) of
        Inl e \<Rightarrow> Inl e
      | Inr axs \<Rightarrow>
          (case enumerate_axes axs of
             Inl e \<Rightarrow> Inl e
           | Inr eps \<Rightarrow>
               Inr (map (\<lambda>ep. render_panel high_limit low_limit (plot_eps_data ! ep)) eps)))"

text \<open>
  The loop over the batches. Each finished figure is saved (to the same \<open>output_img\<close>)
  before the next one is begun, so the result is the list of figures saved, in order,
  and the exception that ended the loop, if any.
\<close>

fun render_batches :: "pyfloat \<Rightarrow> pyfloat \<Rightarrow> pyfloat list list list
    \<Rightarrow> panel list list \<times> error option" where
  "render_batches high_limit low_limit [] = ([], None)"
| "render_batches high_limit low_limit (b # bs) =
     (case render_figure high_limit low_limit b of
        Inl e \<Rightarrow> ([], Some e)
      | Inr fig \<Rightarrow>
          (case render_batches high_limit low_limit bs of
             (figs, r) \<Rightarrow> (fig # figs, r)))"

text \<open>The batches: \<open>eps_data[ep_idx:min(ep_idx + eps_per_plot, len(eps_data))]\<close>.\<close>

definition batches :: "'a list \<Rightarrow> nat list \<Rightarrow> int \<Rightarrow> 'a list list" where
  "batches eps_data plot_ep_splits eps_per_plot =
     map (\<lambda>ep_idx. py_slice eps_data ep_idx
            (nat (min (int ep_idx + eps_per_plot) (int (length eps_data)))))
       plot_ep_splits"

text \<open>
  \<open>_plot_elements_sp\<close>. \<open>self.data\<close> is iterated, which is a \<open>TypeError\<close> on
  \<open>None\<close>; \<open>ep_breaks.remove(0)\<close> raises when position 0 carries no marker.
\<close>

definition plot_elements_sp :: "AnalysisBase \<Rightarrow> pyfloat list \<Rightarrow> pyfloat \<Rightarrow> pyfloat \<Rightarrow> int
    \<Rightarrow> panel list list \<times> error option" where
  "plot_elements_sp self xs high_limit low_limit eps_per_plot =
     (case data self of
        None \<Rightarrow> ([], Some TypeError)
      | Some ds \<Rightarrow>
          (case list_remove 0 (np_where (map new_episode ds)) of
             Inl e \<Rightarrow> ([], Some e)
           | Inr ep_breaks \<Rightarrow>
               (let eps_data = np_split xs ep_breaks
                in case np_arange (length eps_data) eps_per_plot of
                     Inl e \<Rightarrow> ([], Some e)
                   | Inr plot_ep_splits \<Rightarrow>
                       render_batches high_limit low_limit
                         (batches eps_data plot_ep_splits eps_per_plot))))"

section \<open>Tabular export\<close>

text \<open>
  The table under construction is an ordered dictionary from column names to lists of
  cells: an association list with distinct keys, in insertion order. Writing a key that
  is present replaces its value in place.
\<close>

datatype 'v cell = IntCell int | ValCell 'v

type_synonym 'v columns = "(string \<times> 'v cell list) list"

definition EPISODE_STR :: string where
  "EPISODE_STR = ''Episode''"

definition TIME_STEP_STR :: string where
  "TIME_STEP_STR = ''Timestep''"

fun dict_set :: "string \<Rightarrow> 'v cell list \<Rightarrow> 'v columns \<Rightarrow> 'v columns" where
  "dict_set k v [] = [(k, v)]"
| "dict_set k v ((k', v') # d) = (if k' = k then (k, v) # d else (k', v') # dict_set k v d)"

text \<open>\<open>d[k].append(c)\<close>, for a key that is present.\<close>

fun col_append :: "string \<Rightarrow> 'v cell \<Rightarrow> 'v columns \<Rightarrow> 'v columns" where
  "col_append k c [] = []"
| "col_append k c ((k', v') # d) =
     (if k' = k then (k', v' @ [c]) # d else (k', v') # col_append k c d)"

text \<open>
  The loop of \<open>_save_time_dataset_csv\<close> from position \<open>t\<close> on, with the running
  episode number \<open>ep\<close> and local timestep \<open>ep_t\<close>. \<open>element_data[t]\<close> is an
  \<open>IndexError\<close> past the end of \<open>element_data\<close>.
\<close>

fun csv_loop :: "InteractionDataPoint list \<Rightarrow> nat \<Rightarrow> int \<Rightarrow> int \<Rightarrow> 'v list \<Rightarrow> string
    \<Rightarrow> 'v columns \<Rightarrow> error + 'v columns" where
  "csv_loop [] t ep ep_t element_data dimension d = Inr d"
| "csv_loop (datapoint # rest) t ep ep_t element_data dimension d =
     (let first = (new_episode datapoint \<or> ep = - 1);
          ep1 = (if first then ep + 1 else ep);
          ep_t1 = (if first then 0 else ep_t);
          d1 = col_append EPISODE_STR (IntCell ep1) d;
          d2 = col_append TIME_STEP_STR (IntCell ep_t1) d1
      in if t < length element_data then
           csv_loop rest (Suc t) ep1 (ep_t1 + 1) element_data dimension
             (col_append dimension (ValCell (element_data ! t)) d2)
         else Inl IndexError)"

text \<open>
  \<open>pd.DataFrame.from_dict\<close> takes the columns as they are and is a \<open>ValueError\<close>
  when they differ in length.
\<close>

definition DataFrame_from_dict :: "'v columns \<Rightarrow> error + 'v columns" where
  "DataFrame_from_dict d =
     (case d of
        [] \<Rightarrow> Inr d
      | c # cs \<Rightarrow>
          if list_all (\<lambda>x. length (snd x) = length (snd c)) cs then Inr d else Inl ValueError)"

text \<open>
  \<open>_save_time_dataset_csv\<close>: the result is the table handed to \<open>to_csv\<close> (written
  without the index column and with a header line), or the exception raised before.
\<close>

definition save_time_dataset_csv :: "AnalysisBase \<Rightarrow> 'v list \<Rightarrow> string \<Rightarrow> error + 'v columns" where
  "save_time_dataset_csv self element_data dimension =
     (case data self of
        None \<Rightarrow> Inl TypeError
      | Some ds \<Rightarrow>
          (case csv_loop ds 0 (- 1) 0 element_data dimension
                  (dict_set dimension [] (dict_set TIME_STEP_STR [] (dict_set EPISODE_STR [] []))) of
             Inl e \<Rightarrow> Inl e
           | Inr d \<Rightarrow> DataFrame_from_dict d))"

section \<open>interestingness_xdrl/util/video.py: fade_video\<close>

text \<open>
  \<open>int(x)\<close> on a float rounds towards zero. \<open>fade_ratio\<close> is a finite float, taken
  as the real number it stands for; the product with the frame count is taken exactly.
  \<open>a / b\<close> on integers is the true quotient and a \<open>ZeroDivisionError\<close> for \<open>b = 0\<close>.
\<close>

definition py_int_of_float :: "real \<Rightarrow> int" where
  "py_int_of_float x = (if 0 \<le> x then \<lfloor>x\<rfloor> else \<lceil>x\<rceil>)"

definition py_truediv :: "int \<Rightarrow> int \<Rightarrow> error + real" where
  "py_truediv a b = (if b = 0 then Inl ZeroDivisionError else Inr (real_of_int a / real_of_int b))"

text \<open>
  The loop of \<open>fade_video\<close> from frame \<open>t\<close> on. \<open>fade_image\<close> is the image routine
  of \<open>util/image.py\<close>, a parameter here.
\<close>

fun fade_loop :: "('f \<Rightarrow> real \<Rightarrow> 'f) \<Rightarrow> int \<Rightarrow> int \<Rightarrow> int \<Rightarrow> int \<Rightarrow> nat \<Rightarrow> 'f list
    \<Rightarrow> error + 'f list" where
  "fade_loop fade_image fade_steps fade_in_frames fade_out_frames total_frames t [] = Inr []"
| "fade_loop fade_image fade_steps fade_in_frames fade_out_frames total_frames t (frame # rest) =
     (case (if int t < fade_in_frames then
              (case py_truediv (int t) fade_steps of
                 Inl e \<Rightarrow> Inl e
               | Inr q \<Rightarrow> Inr (fade_image frame (1 - q)))
            else if total_frames - fade_out_frames \<le> int t then
              (case py_truediv (int t - (total_frames - fade_out_frames)) fade_steps of
                 Inl e \<Rightarrow> Inl e
               | Inr q \<Rightarrow> Inr (fade_image frame q))
            else Inr frame) of
        Inl e \<Rightarrow> Inl e
      | Inr frame' \<Rightarrow>
          (case fade_loop fade_image fade_steps fade_in_frames fade_out_frames total_frames
                  (Suc t) rest of
             Inl e \<Rightarrow> Inl e
           | Inr faded \<Rightarrow> Inr (frame' # faded)))"

definition fade_video :: "('f \<Rightarrow> real \<Rightarrow> 'f) \<Rightarrow> 'f list \<Rightarrow> real \<Rightarrow> bool \<Rightarrow> bool \<Rightarrow> error + 'f list" where
  "fade_video fade_image buffer fade_ratio fade_in fade_out =
     (if fade_in \<or> fade_out then
        (let total_frames = int (length buffer);
             fade_steps = py_int_of_float (fade_ratio * real_of_int total_frames);
             fade_in_frames = (if fade_in then fade_steps else 0);
             fade_out_frames = (if fade_out then fade_steps else total_frames)
         in fade_loop fade_image fade_steps fade_in_frames fade_out_frames total_frames 0 buffer)
      else Inr buffer)"

section \<open>The index pairs of the export\<close>

text \<open>
  The (episode, local timestep) pairs that the loop of \<open>_save_time_dataset_csv\<close>
  appends for the datapoints still to come, from the running state \<open>ep\<close>, \<open>ep_t\<close>.
  The loop's result is stated with it.
\<close>

fun csv_pairs :: "InteractionDataPoint list \<Rightarrow> int \<Rightarrow> int \<Rightarrow> (int \<times> int) list" where
  "csv_pairs [] ep ep_t = []"
| "csv_pairs (datapoint # rest) ep ep_t =
     (let first = (new_episode datapoint \<or> ep = - 1);
          ep1 = (if first then ep + 1 else ep);
          ep_t1 = (if first then 0 else ep_t)
      in (ep1, ep_t1) # csv_pairs rest ep1 (ep_t1 + 1))"

section \<open>Properties of str2int\<close>

lemma py_int_zero: "py_int max_digits ''0'' = Some 0"
  by (simp add: py_int_def py_isspace_def is_digit_def digit_val_def over_limit_def)

text \<open>
  C10. \<open>str2int\<close> returns \<open>None\<close> for the empty string. For any other string whose
  parsed integer is zero, the string \<open>0\<close> among them, it fails with an assertion error;
  it returns the parsed integer when that is not zero, and never returns zero.
\<close>

theorem str2int_rejects_zero:
  "str2int max_digits [] = Inr None \<and>
   str2int max_digits ''0'' = Inl AssertionError \<and>
   (s \<noteq> [] \<and> py_int max_digits s = Some 0 \<longrightarrow> str2int max_digits s = Inl AssertionError) \<and>
   (s \<noteq> [] \<and> py_int max_digits s = Some n \<and> n \<noteq> 0 \<longrightarrow> str2int max_digits s = Inr (Some n)) \<and>
   (str2int max_digits s = Inr (Some n) \<longrightarrow> n \<noteq> 0 \<and> py_int max_digits s = Some n)"
proof -
  have "str2int max_digits ''0'' = Inl AssertionError"
    by (simp add: str2int_def py_int_zero)
  moreover have "str2int max_digits s = Inr (Some n) \<longrightarrow> n \<noteq> 0 \<and> py_int max_digits s = Some n"
    by (auto simp: str2int_def split: if_splits option.splits)
  ultimately show ?thesis
    by (simp add: str2int_def)
qed

theorem str2int_rejects_zero_witness:
  "str2int 4300 ''00'' = Inl AssertionError \<and> str2int 4300 ''-12'' = Inr (Some (- 12))"
proof -
  have z: "py_int 4300 ''00'' = Some 0"
    by (simp add: py_int_def py_isspace_def is_digit_def digit_val_def over_limit_def)
  have m: "py_int 4300 ''-12'' = Some (- 12)"
    by (simp add: py_int_def py_isspace_def is_digit_def digit_val_def over_limit_def)
  from str2int_rejects_zero [of 4300 "''00''" 0] z
  have "str2int 4300 ''00'' = Inl AssertionError" by simp
  moreover from str2int_rejects_zero [of 4300 "''-12''" "- 12"] m
  have "str2int 4300 ''-12'' = Inr (Some (- 12))" by simp
  ultimately show ?thesis by simp
qed

section \<open>Properties of save\<close>

lemma save_success:
  "dump w file_path (self\<lparr>data := None\<rparr>) = Inr w' \<Longrightarrow> save dump w self file_path = (self, Inr w')"
  by (simp add: save_def)

lemma save_failure:
  "dump w file_path (self\<lparr>data := None\<rparr>) = Inl e \<Longrightarrow>
   save dump w self file_path = (self\<lparr>data := None\<rparr>, Inl e)"
  by (simp add: save_def)

text \<open>
  C1. When the write fails (here: \<open>gzip.open\<close> cannot create the file), \<open>save\<close>
  leaves the object with its data field still \<open>None\<close>: the data is not put back.
\<close>

theorem save_failure_loses_data:
  "save (\<lambda>w p obj. Inl OSError) ()
     \<lparr>data = Some [\<lparr>new_episode = True, action_factors = []\<rparr>], config = 0, img_fmt = ''png''\<rparr>
     ''missing_dir/analysis.pkl.gz''
   = (\<lparr>data = None, config = 0, img_fmt = ''png''\<rparr>, Inl OSError)"
  by (simp add: save_def)

section \<open>Properties of the worker pool\<close>

lemma get_mp_pool_size: "snd (get_mp_pool cpus h self) = mp_Pool cpus None"
  by (simp add: get_mp_pool_def)

lemma get_mp_pool_store:
  "fst (get_mp_pool cpus h self) r =
     (if r = config self then (h r)\<lparr>num_processes := - 1\<rparr> else h r)"
  by (simp add: get_mp_pool_def)

text \<open>
  C2. With four worker processes configured on a host of eight cores, the pool gets
  eight workers: the configured count is overwritten before it is read.
\<close>

theorem get_mp_pool_ignores_configured_count:
  "snd (get_mp_pool (Some 8) (\<lambda>r. \<lparr>num_processes = 4\<rparr>)
          \<lparr>data = Some [], config = 0, img_fmt = ''png''\<rparr>) = Inr (Pool 8)"
  by (simp add: get_mp_pool_def mp_Pool_def)

text \<open>
  C3. Creating the pool changes the shared configuration: its worker count is four
  before the call and \<open>-1\<close> after it.
\<close>

theorem get_mp_pool_overwrites_num_processes:
  "num_processes (fst (get_mp_pool (Some 8) (\<lambda>r. \<lparr>num_processes = 4\<rparr>)
          \<lparr>data = Some [], config = 0, img_fmt = ''png''\<rparr>) 0) = - 1"
  by (simp add: get_mp_pool_def)

section \<open>Properties of the outlier lists\<close>

lemma fge_NaN_right: "fge a NaN = False"
  by (cases a) simp_all

text \<open>
  C6. The above-outlier indices of a series are exactly the positions whose value is at
  least the high limit, in ascending order, and the below-outlier indices exactly those
  whose value is at most the low limit; a value equal to the limit counts. With an
  undefined (\<open>NaN\<close>) limit the list is empty and no marker is drawn; nothing is raised.
\<close>

theorem outliers_exact:
  "map fst (highs xs high_limit) = filter (\<lambda>t. fge (xs ! t) high_limit) [0..<length xs] \<and>
   set (map fst (highs xs high_limit)) = {t. t < length xs \<and> fge (xs ! t) high_limit} \<and>
   map fst (lows xs low_limit) = filter (\<lambda>t. fle (xs ! t) low_limit) [0..<length xs] \<and>
   set (map fst (lows xs low_limit)) = {t. t < length xs \<and> fle (xs ! t) low_limit} \<and>
   fge (Fin v) (Fin v) \<and> fle (Fin v) (Fin v) \<and>
   highs xs NaN = [] \<and> lows xs NaN = [] \<and>
   high_points (render_panel NaN low_limit xs) = None \<and>
   low_points (render_panel high_limit NaN xs) = None"
proof -
  have h: "map fst (highs xs high_limit) = filter (\<lambda>t. fge (xs ! t) high_limit) [0..<length xs]"
    by (simp add: highs_def comp_def)
  have l: "map fst (lows xs low_limit) = filter (\<lambda>t. fle (xs ! t) low_limit) [0..<length xs]"
    by (simp add: lows_def comp_def)
  have hs: "set (map fst (highs xs high_limit)) = {t. t < length xs \<and> fge (xs ! t) high_limit}"
    unfolding h by auto
  have ls: "set (map fst (lows xs low_limit)) = {t. t < length xs \<and> fle (xs ! t) low_limit}"
    unfolding l by auto
  have hn: "highs xs NaN = []"
    by (simp add: highs_def fge_NaN_right)
  have ln: "lows xs NaN = []"
    by (simp add: lows_def fle_def)
  have pn: "high_points (render_panel NaN low_limit xs) = None"
    by (simp add: render_panel_def hn scatter_points_def np_array_ndim_def)
  have qn: "low_points (render_panel high_limit NaN xs) = None"
    by (simp add: render_panel_def ln scatter_points_def np_array_ndim_def)
  show ?thesis
    using h l hs ls hn ln pn qn by (simp add: fle_def)
qed

section \<open>Properties of the multi-panel rendering\<close>

lemma np_where_unmarked_first: "\<not> new_episode d \<Longrightarrow> 0 \<notin> set (np_where (map new_episode (d # ds)))"
  by (auto simp: np_where_def)

lemma plot_elements_sp_unmarked_first:
  "data self = Some (d # ds) \<Longrightarrow> \<not> new_episode d \<Longrightarrow>
   plot_elements_sp self xs high_limit low_limit eps_per_plot = ([], Some ValueError)"
  using np_where_unmarked_first [of d ds]
  by (simp add: plot_elements_sp_def list_remove_def)

text \<open>
  C4. On three records whose first one carries no episode marker, the multi-panel
  plot raises \<open>ValueError\<close> (from \<open>ep_breaks.remove(0)\<close>) and saves no figure: the
  first record is not taken as the start of episode 0 there.
\<close>

theorem plot_elements_sp_first_record_unmarked:
  "plot_elements_sp
     (AnalysisBase_init
        [\<lparr>new_episode = False, action_factors = []\<rparr>,
         \<lparr>new_episode = True, action_factors = []\<rparr>,
         \<lparr>new_episode = False, action_factors = []\<rparr>] 0 ''png'')
     [Fin 1, Fin 2, Fin 3] NaN NaN 10
   = ([], Some ValueError)"
  by (simp add: plot_elements_sp_def AnalysisBase_init_def list_remove_def np_where_def)

lemma batches_concat_aux:
  "0 < b \<Longrightarrow>
   concat (map (\<lambda>k. py_slice xs (k * b) (min (k * b + b) (length xs))) [0..<m]) = take (m * b) xs"
proof (induction m)
  case 0
  then show ?case by simp
next
  case (Suc m)
  have "take (m * b) xs @ py_slice xs (m * b) (min (m * b + b) (length xs)) = take (m * b + b) xs"
    by (simp add: py_slice_def take_add min_def)
  with Suc show ?case by (simp add: add.commute)
qed

lemma batch_end: "nat (min (int a + int b) (int n)) = min (a + b) n"
  by (simp add: min_def) linarith

lemma ceil_div_covers: "0 < b \<Longrightarrow> (n::nat) \<le> (n + b - 1) div b * b"
proof -
  assume b: "0 < b"
  have "(n + b - 1) div b * b + (n + b - 1) mod b = n + b - 1"
    by simp
  moreover have "(n + b - 1) mod b < b"
    using b by simp
  ultimately show ?thesis by linarith
qed

text \<open>
  The batching itself is right: for a batch size \<open>b \<ge> 1\<close> the batches of \<open>E\<close>
  episodes are \<open>ceil(E/b)\<close> many and, put end to end, give the episodes back.
\<close>

lemma batches_partition:
  assumes "0 < b" and "np_arange (length eps_data) (int b) = Inr plot_ep_splits"
  shows "concat (batches eps_data plot_ep_splits (int b)) = eps_data"
    and "length (batches eps_data plot_ep_splits (int b)) = (length eps_data + b - 1) div b"
proof -
  let ?m = "(length eps_data + b - 1) div b"
  from assms have sp: "plot_ep_splits = map (\<lambda>k. k * b) [0..<?m]"
    by (simp add: np_arange_def)
  have "batches eps_data plot_ep_splits (int b)
        = map (\<lambda>k. py_slice eps_data (k * b) (min (k * b + b) (length eps_data))) [0..<?m]"
    by (simp add: batches_def sp comp_def batch_end)
  then show "concat (batches eps_data plot_ep_splits (int b)) = eps_data"
    using batches_concat_aux [OF assms(1), of eps_data ?m] ceil_div_covers [OF assms(1), of "length eps_data"]
    by simp
  show "length (batches eps_data plot_ep_splits (int b)) = ?m"
    by (simp add: batches_def sp)
qed

text \<open>A batch of two or more episodes is rendered, one panel per episode.\<close>

lemma render_figure_multi:
  "2 \<le> length plot_eps_data \<Longrightarrow>
   render_figure high_limit low_limit plot_eps_data
     = Inr (map (render_panel high_limit low_limit) plot_eps_data)"
proof -
  assume n: "2 \<le> length plot_eps_data"
  have "map (\<lambda>ep. render_panel high_limit low_limit (plot_eps_data ! ep)) [0..<length plot_eps_data]
      = map (render_panel high_limit low_limit) (map ((!) plot_eps_data) [0..<length plot_eps_data])"
    by simp
  also have "\<dots> = map (render_panel high_limit low_limit) plot_eps_data"
    by (simp only: map_nth)
  finally show ?thesis
    using n by (auto simp: render_figure_def plt_subplots_def enumerate_axes_def)
qed

text \<open>A batch of exactly one episode is not: \<open>enumerate\<close> raises on the single axes.\<close>

lemma render_figure_single:
  "render_figure high_limit low_limit [ep_data] = Inl TypeError"
  by (simp add: render_figure_def plt_subplots_def enumerate_axes_def)

text \<open>
  So the loop over the batches saves every figure exactly when no batch is a single
  episode, and stops at the first batch that is.
\<close>

lemma render_batches_multi:
  "list_all (\<lambda>b. 2 \<le> length b) bs \<Longrightarrow>
   render_batches high_limit low_limit bs
     = (map (map (render_panel high_limit low_limit)) bs, None)"
  by (induction bs) (simp_all add: render_figure_multi)

lemma render_batches_single:
  "render_batches high_limit low_limit ([ep_data] # bs) = ([], Some TypeError)"
  by (simp add: render_figure_single)

text \<open>
  C5. For one episode (three records, the first one marked) and the default batch size
  of ten, the multi-panel plot raises \<open>TypeError\<close> and saves no figure, where the claim
  asks for one figure with one panel.
\<close>

theorem plot_elements_sp_single_episode:
  "plot_elements_sp
     (AnalysisBase_init
        [\<lparr>new_episode = True, action_factors = []\<rparr>,
         \<lparr>new_episode = False, action_factors = []\<rparr>,
         \<lparr>new_episode = False, action_factors = []\<rparr>] 0 ''png'')
     [Fin 1, Fin 2, Fin 3] NaN NaN 10
   = ([], Some TypeError)"
  by (simp add: plot_elements_sp_def AnalysisBase_init_def list_remove_def np_where_def
      np_split_def np_arange_def batches_def py_slice_def render_figure_single)

section \<open>Properties of the tabular export\<close>

lemma keys_distinct: "EPISODE_STR \<noteq> TIME_STEP_STR"
  by (simp add: EPISODE_STR_def TIME_STEP_STR_def)

lemma csv_loop_columns:
  "dimension \<noteq> EPISODE_STR \<Longrightarrow> dimension \<noteq> TIME_STEP_STR \<Longrightarrow> t + length ps \<le> length ed \<Longrightarrow>
   csv_loop ps t ep ep_t ed dimension [(EPISODE_STR, a), (TIME_STEP_STR, b), (dimension, c)] =
   Inr [(EPISODE_STR, a @ map (IntCell \<circ> fst) (csv_pairs ps ep ep_t)),
        (TIME_STEP_STR, b @ map (IntCell \<circ> snd) (csv_pairs ps ep ep_t)),
        (dimension, c @ map ValCell (take (length ps) (drop t ed)))]"
proof (induction ps arbitrary: t ep ep_t a b c)
  case Nil
  then show ?case by simp
next
  case (Cons p ps)
  from Cons.prems have t: "t < length ed" and rest: "Suc t + length ps \<le> length ed"
    by simp_all
  have dr: "take (Suc (length ps)) (drop t ed) = ed ! t # take (length ps) (drop (Suc t) ed)"
    using t by (simp add: Cons_nth_drop_Suc [symmetric])
  show ?case
    using Cons.prems(1,2) t keys_distinct
    by (simp add: Let_def Cons.IH [OF Cons.prems(1,2) rest] dr)
qed

lemma csv_pairs_length: "length (csv_pairs ps ep ep_t) = length ps"
  by (induction ps arbitrary: ep ep_t) (simp_all add: Let_def)

lemma csv_pairs_first: "csv_pairs (p # ps) (- 1) 0 ! 0 = (0, 0)"
  by (simp add: Let_def)

lemma csv_pairs_step:
  "- 1 \<le> ep \<Longrightarrow> Suc i < length ps \<Longrightarrow>
   (if new_episode (ps ! Suc i)
    then fst (csv_pairs ps ep ep_t ! Suc i) = fst (csv_pairs ps ep ep_t ! i) + 1 \<and>
         snd (csv_pairs ps ep ep_t ! Suc i) = 0
    else fst (csv_pairs ps ep ep_t ! Suc i) = fst (csv_pairs ps ep ep_t ! i) \<and>
         snd (csv_pairs ps ep ep_t ! Suc i) = snd (csv_pairs ps ep ep_t ! i) + 1)"
proof (induction ps arbitrary: ep ep_t i)
  case Nil
  then show ?case by simp
next
  case (Cons p ps)
  show ?case
  proof (cases i)
    case 0
    with Cons.prems obtain q qs where ps: "ps = q # qs"
      by (cases ps) auto
    show ?thesis
      using Cons.prems(1) by (auto simp: 0 ps Let_def)
  next
    case (Suc j)
    let ?ep1 = "if new_episode p \<or> ep = - 1 then ep + 1 else ep"
    have "- 1 \<le> ?ep1" using Cons.prems(1) by simp
    moreover have "Suc j < length ps" using Cons.prems(2) Suc by simp
    ultimately show ?thesis
      using Cons.IH [of ?ep1 j] by (simp add: Suc Let_def)
  qed
qed

lemma initial_columns:
  "dimension \<noteq> EPISODE_STR \<Longrightarrow> dimension \<noteq> TIME_STEP_STR \<Longrightarrow>
   dict_set dimension [] (dict_set TIME_STEP_STR [] (dict_set EPISODE_STR [] []))
     = [(EPISODE_STR, []), (TIME_STEP_STR, []), (dimension, [])]"
  using keys_distinct by simp

lemma save_time_dataset_csv_columns:
  assumes "data self = Some ds" and "length element_data = length ds"
    and "dimension \<noteq> EPISODE_STR" and "dimension \<noteq> TIME_STEP_STR"
  shows "save_time_dataset_csv self element_data dimension =
     Inr [(EPISODE_STR, map (IntCell \<circ> fst) (csv_pairs ds (- 1) 0)),
          (TIME_STEP_STR, map (IntCell \<circ> snd) (csv_pairs ds (- 1) 0)),
          (dimension, map ValCell element_data)]"
proof -
  have "csv_loop ds 0 (- 1) 0 element_data dimension
          [(EPISODE_STR, []), (TIME_STEP_STR, []), (dimension, [])] =
        Inr [(EPISODE_STR, map (IntCell \<circ> fst) (csv_pairs ds (- 1) 0)),
             (TIME_STEP_STR, map (IntCell \<circ> snd) (csv_pairs ds (- 1) 0)),
             (dimension, map ValCell element_data)]"
    using csv_loop_columns [OF assms(3,4), of 0 ds element_data "- 1" 0 "[]" "[]" "[]"] assms(2)
    by simp
  then show ?thesis
    using assms(1,2)
    by (simp add: save_time_dataset_csv_def initial_columns [OF assms(3,4)]
        DataFrame_from_dict_def csv_pairs_length del: dict_set.simps)
qed

text \<open>
  C7. For a record sequence of length \<open>n\<close> and a series of the same length (under a
  column name other than the two index columns' names), the export succeeds with the
  columns Episode, Timestep and the series, each of \<open>n\<close> rows. The first row is episode
  0 at local timestep 0, marker or not; at every later record with the marker the
  episode number goes up by one and the local timestep restarts at 0, and otherwise the
  episode number stays and the local timestep goes up by one.
\<close>

theorem save_time_dataset_csv_rows:
  assumes "data self = Some ds" and "length element_data = length ds"
    and "dimension \<noteq> EPISODE_STR" and "dimension \<noteq> TIME_STEP_STR"
  shows "\<exists>eps ts.
     save_time_dataset_csv self element_data dimension =
       Inr [(EPISODE_STR, map IntCell eps), (TIME_STEP_STR, map IntCell ts),
            (dimension, map ValCell element_data)] \<and>
     length eps = length ds \<and> length ts = length ds \<and>
     (ds \<noteq> [] \<longrightarrow> eps ! 0 = 0 \<and> ts ! 0 = 0) \<and>
     (\<forall>i. Suc i < length ds \<longrightarrow>
        (if new_episode (ds ! Suc i)
         then eps ! Suc i = eps ! i + 1 \<and> ts ! Suc i = 0
         else eps ! Suc i = eps ! i \<and> ts ! Suc i = ts ! i + 1))"
proof -
  let ?ps = "csv_pairs ds (- 1) 0"
  have len: "length ?ps = length ds"
    by (rule csv_pairs_length)
  have first: "ds \<noteq> [] \<longrightarrow> map fst ?ps ! 0 = 0 \<and> map snd ?ps ! 0 = 0"
  proof
    assume "ds \<noteq> []"
    then obtain p ps where "ds = p # ps" by (cases ds) auto
    then show "map fst ?ps ! 0 = 0 \<and> map snd ?ps ! 0 = 0"
      by (simp add: Let_def)
  qed
  have step: "\<forall>i. Suc i < length ds \<longrightarrow>
        (if new_episode (ds ! Suc i)
         then map fst ?ps ! Suc i = map fst ?ps ! i + 1 \<and> map snd ?ps ! Suc i = 0
         else map fst ?ps ! Suc i = map fst ?ps ! i \<and> map snd ?ps ! Suc i = map snd ?ps ! i + 1)"
  proof (intro allI impI)
    fix i
    assume i: "Suc i < length ds"
    then have "i < length ?ps" "Suc i < length ?ps"
      using len by simp_all
    then show "if new_episode (ds ! Suc i)
         then map fst ?ps ! Suc i = map fst ?ps ! i + 1 \<and> map snd ?ps ! Suc i = 0
         else map fst ?ps ! Suc i = map fst ?ps ! i \<and> map snd ?ps ! Suc i = map snd ?ps ! i + 1"
      using csv_pairs_step [of "- 1" i ds 0] i by simp
  qed
  have res: "save_time_dataset_csv self element_data dimension =
       Inr [(EPISODE_STR, map IntCell (map fst ?ps)), (TIME_STEP_STR, map IntCell (map snd ?ps)),
            (dimension, map ValCell element_data)]"
    using save_time_dataset_csv_columns [OF assms] by simp
  show ?thesis
    apply (rule exI [of _ "map fst ?ps"])
    apply (rule exI [of _ "map snd ?ps"])
    using res len first step by simp
qed

theorem save_time_dataset_csv_rows_witness:
  "\<exists>eps ts.
     save_time_dataset_csv
       (AnalysisBase_init
          [\<lparr>new_episode = False, action_factors = []\<rparr>,
           \<lparr>new_episode = True, action_factors = []\<rparr>,
           \<lparr>new_episode = False, action_factors = []\<rparr>] 0 ''png'')
       [Fin 1, Fin 2, Fin 3] ''Value'' =
       Inr [(''Episode'', map IntCell eps), (''Timestep'', map IntCell ts),
            (''Value'', map ValCell [Fin 1, Fin 2, Fin 3])] \<and>
     length eps = 3 \<and> length ts = 3 \<and> eps ! 0 = 0 \<and> ts ! 0 = 0 \<and>
     eps ! 1 = eps ! 0 + 1 \<and> ts ! 1 = 0 \<and> eps ! 2 = eps ! 1 \<and> ts ! 2 = ts ! 1 + 1"
proof -
  let ?ds = "[\<lparr>new_episode = False, action_factors = []\<rparr>,
           \<lparr>new_episode = True, action_factors = []\<rparr>,
           \<lparr>new_episode = False, action_factors = []\<rparr>]"
  have d: "data (AnalysisBase_init ?ds 0 ''png'') = Some ?ds"
    by (simp add: AnalysisBase_init_def)
  have l: "length [Fin 1, Fin 2, Fin 3] = length ?ds"
    by simp
  have k1: "''Value'' \<noteq> EPISODE_STR" and k2: "''Value'' \<noteq> TIME_STEP_STR"
    by (simp_all add: EPISODE_STR_def TIME_STEP_STR_def)
  from save_time_dataset_csv_rows [OF d l k1 k2]
  obtain eps ts where r:
    "save_time_dataset_csv (AnalysisBase_init ?ds 0 ''png'') [Fin 1, Fin 2, Fin 3] ''Value'' =
       Inr [(EPISODE_STR, map IntCell eps), (TIME_STEP_STR, map IntCell ts),
            (''Value'', map ValCell [Fin 1, Fin 2, Fin 3])]"
    and le: "length eps = length ?ds" and lt: "length ts = length ?ds"
    and f: "?ds \<noteq> [] \<longrightarrow> eps ! 0 = 0 \<and> ts ! 0 = 0"
    and s: "\<forall>i. Suc i < length ?ds \<longrightarrow>
        (if new_episode (?ds ! Suc i)
         then eps ! Suc i = eps ! i + 1 \<and> ts ! Suc i = 0
         else eps ! Suc i = eps ! i \<and> ts ! Suc i = ts ! i + 1)"
    by blast
  from s [rule_format, of 0] have s0: "eps ! 1 = eps ! 0 + 1 \<and> ts ! 1 = 0"
    by simp
  from s [rule_format, of 1] have s1: "eps ! 2 = eps ! 1 \<and> ts ! 2 = ts ! 1 + 1"
    by (simp add: numeral_2_eq_2)
  show ?thesis
    apply (rule exI [of _ eps])
    apply (rule exI [of _ ts])
    using r le lt f s0 s1 by (simp add: EPISODE_STR_def TIME_STEP_STR_def)
qed

text \<open>
  C8, as stated, fails: an analysis over the empty record sequence is constructed, and
  its tabular export runs and yields a table, with no error.
\<close>

theorem empty_sequence_export_succeeds:
  "data (AnalysisBase_init [] 0 ''png'') = Some [] \<and>
   save_time_dataset_csv (AnalysisBase_init [] 0 ''png'') ([] :: pyfloat list) ''Value''
     = Inr [(''Episode'', []), (''Timestep'', []), (''Value'', [])]"
  by (simp add: AnalysisBase_init_def save_time_dataset_csv_def DataFrame_from_dict_def
      EPISODE_STR_def TIME_STEP_STR_def)

lemma DataFrame_from_dict_empty_columns:
  "list_all (\<lambda>x. snd x = []) d \<Longrightarrow> DataFrame_from_dict d = Inr d"
  by (cases d) (auto simp: DataFrame_from_dict_def list_all_iff)

lemma dict_set_empty_columns: "list_all (\<lambda>x. snd x = []) d \<Longrightarrow> list_all (\<lambda>x. snd x = []) (dict_set k [] d)"
  by (induction d) auto

text \<open>
  C8, amended. For the empty record sequence nothing is checked and nothing fails:
  the constructor stores the empty sequence, and the tabular export succeeds with a
  table whose columns are all empty (zero rows), whatever the series and column name.
\<close>

theorem empty_sequence_is_accepted:
  "data (AnalysisBase_init [] analysis_config fmt) = Some [] \<and>
   save_time_dataset_csv (AnalysisBase_init [] analysis_config fmt) element_data dimension
     = Inr (dict_set dimension [] [(EPISODE_STR, []), (TIME_STEP_STR, [])]) \<and>
   list_all (\<lambda>x. snd x = []) (dict_set dimension [] [(EPISODE_STR, []), (TIME_STEP_STR, [])])"
proof -
  have e: "list_all (\<lambda>x. snd x = []) (dict_set dimension [] [(EPISODE_STR, []), (TIME_STEP_STR, [])])"
    by (rule dict_set_empty_columns) simp
  have k: "dict_set TIME_STEP_STR [] (dict_set EPISODE_STR [] []) = [(EPISODE_STR, []), (TIME_STEP_STR, [])]"
    using keys_distinct by simp
  have "DataFrame_from_dict (dict_set dimension [] [(EPISODE_STR, []), (TIME_STEP_STR, [])])
      = Inr (dict_set dimension [] [(EPISODE_STR, []), (TIME_STEP_STR, [])])"
    by (rule DataFrame_from_dict_empty_columns [OF e])
  then show ?thesis
    using e by (simp add: AnalysisBase_init_def save_time_dataset_csv_def k del: dict_set.simps)
qed

section \<open>Properties of fade_video\<close>

lemma fade_video_no_effect: "fade_video fade_image buffer fade_ratio False False = Inr buffer"
  by (simp add: fade_video_def)

lemma fade_loop_length:
  "fade_loop fade_image fade_steps fade_in_frames fade_out_frames total_frames t buffer = Inr faded
   \<Longrightarrow> length faded = length buffer"
  by (induction buffer arbitrary: t faded) (auto split: sum.splits if_splits)

lemma fade_video_length:
  "fade_video fade_image buffer fade_ratio fade_in fade_out = Inr faded \<Longrightarrow> length faded = length buffer"
  by (auto simp: fade_video_def Let_def dest: fade_loop_length split: if_splits)

lemma fade_loop_total:
  "fade_steps \<noteq> 0 \<Longrightarrow>
   \<exists>faded. fade_loop fade_image fade_steps fade_in_frames fade_out_frames total_frames t buffer = Inr faded"
proof (induction buffer arbitrary: t)
  case Nil
  then show ?case by simp
next
  case (Cons frame rest)
  from Cons.IH [OF Cons.prems, of "Suc t"] obtain faded where
    "fade_loop fade_image fade_steps fade_in_frames fade_out_frames total_frames (Suc t) rest = Inr faded"
    by blast
  then show ?case
    using Cons.prems by (simp add: py_truediv_def)
qed

text \<open>
  C9. With a fade-in only, a fade ratio of one quarter and three frames, the number of
  fade steps is \<open>int(0.75) = 0\<close> and \<open>fade_video\<close> raises \<open>ZeroDivisionError\<close> at the
  first frame instead of returning three frames.
\<close>

theorem fade_video_fade_in_only_zero_steps:
  "fade_video (\<lambda>frame alpha. frame) [0, 1, 2 :: nat] (1 / 4) True False = Inl ZeroDivisionError"
  by (simp add: fade_video_def py_int_of_float_def py_truediv_def)

end
